theory Spec2Isabelle
  imports Complex_Main
begin

unbundle bit_operations_syntax

section \<open>Data model\<close>

text \<open>
  The Python exceptions the modelled functions can end with. \<open>SystemExit\<close> is what
  \<^verbatim>\<open>sys.exit\<close> raises. \<open>OutOfDraws\<close> is not a Python exception: the random source of the
  model is a finite list of draws, and a loop that has used it up is the model of a loop
  that does not end.
\<close>

datatype py_error = ZeroDivisionError | ValueError | UnboundLocalError | SystemExit | OutOfDraws

text \<open>
  A label in ABSOLUTE format is the Python list \<^verbatim>\<open>[CLASS,XL,YT,XR,YB,AREA]\<close> of integers;
  the fields are named after the positions 0 to 5.
\<close>

record abs_label =
  lbl_class :: int
  lbl_xLeft :: int
  lbl_yTop :: int
  lbl_xRight :: int
  lbl_yBottom :: int
  lbl_area :: int

section \<open>util.get\_labels\_in\_rectangle\<close>

text \<open>
  The test of line 186 of util.py: the label is a candidate for the rectangle.
\<close>

definition label_inside :: "abs_label \<Rightarrow> int \<Rightarrow> int \<Rightarrow> int \<Rightarrow> int \<Rightarrow> bool" where
  "label_inside curLabel xLeft yTop xRight yBottom \<longleftrightarrow>
     lbl_xRight curLabel \<ge> xLeft \<and> lbl_xLeft curLabel < xRight \<and>
     lbl_yBottom curLabel \<ge> yTop \<and> lbl_yTop curLabel < yBottom"

text \<open>
  Lines 188 to 193 and the list appended at line 200: the clipped box relative to the
  rectangle, with the clipped area in the last position.
\<close>

definition clipped_label :: "abs_label \<Rightarrow> int \<Rightarrow> int \<Rightarrow> int \<Rightarrow> int \<Rightarrow> abs_label" where
  "clipped_label curLabel xLeft yTop xRight yBottom =
     (let lxLeft = max 0 (lbl_xLeft curLabel - xLeft);
          lyTop = max 0 (lbl_yTop curLabel - yTop);
          lxRight = min (xRight - xLeft) (lbl_xRight curLabel - xLeft);
          lyBottom = min (yBottom - yTop) (lbl_yBottom curLabel - yTop);
          theArea = (lxRight - lxLeft) * (lyBottom - lyTop)
      in \<lparr>lbl_class = lbl_class curLabel, lbl_xLeft = lxLeft, lbl_yTop = lyTop,
          lbl_xRight = lxRight, lbl_yBottom = lyBottom, lbl_area = theArea\<rparr>)"

text \<open>
  The loop of lines 184 to 200, with \<open>outLabels\<close> as accumulator. \<^verbatim>\<open>theArea/curLabel[5]\<close>
  is Python's true division of two integers: it raises ZeroDivisionError on a zero
  divisor, and its float result is taken as the exact quotient. The \<^verbatim>\<open>break\<close> returns
  the labels accumulated so far with \<open>isPartial = True\<close>.
\<close>

fun get_labels_loop ::
  "abs_label list \<Rightarrow> int \<Rightarrow> int \<Rightarrow> int \<Rightarrow> int \<Rightarrow> real \<Rightarrow> bool \<Rightarrow> abs_label list
   \<Rightarrow> py_error + abs_label list \<times> bool" where
  "get_labels_loop [] xLeft yTop xRight yBottom minPct rejectPartial outLabels =
     Inr (outLabels, False)"
| "get_labels_loop (curLabel # rest) xLeft yTop xRight yBottom minPct rejectPartial outLabels =
     (if label_inside curLabel xLeft yTop xRight yBottom then
        (let new = clipped_label curLabel xLeft yTop xRight yBottom;
             theArea = lbl_area new
         in if lbl_area curLabel = 0 then Inl ZeroDivisionError
            else
              (let areaRatio = real_of_int theArea / real_of_int (lbl_area curLabel)
               in if rejectPartial \<and> areaRatio < 1 then Inr (outLabels, True)
                  else if areaRatio \<ge> minPct then
                    get_labels_loop rest xLeft yTop xRight yBottom minPct rejectPartial
                      (outLabels @ [new])
                  else
                    get_labels_loop rest xLeft yTop xRight yBottom minPct rejectPartial
                      outLabels))
      else get_labels_loop rest xLeft yTop xRight yBottom minPct rejectPartial outLabels)"

definition get_labels_in_rectangle ::
  "abs_label list \<Rightarrow> int \<Rightarrow> int \<Rightarrow> int \<Rightarrow> int \<Rightarrow> real \<Rightarrow> bool
   \<Rightarrow> py_error + abs_label list \<times> bool" where
  "get_labels_in_rectangle theLabels xLeft yTop xRight yBottom minPct rejectPartial =
     get_labels_loop theLabels xLeft yTop xRight yBottom minPct rejectPartial []"


section \<open>util.convert\_objdetect\_labels\<close>












section \<open>Images\<close>

text \<open>
  A numpy image: its shape (rows, columns) and its rows of pixels, a pixel being the list
  of its channel values (one value for a gray-scale image). A well-formed image has
  \<open>img_shape0\<close> rows of \<open>img_shape1\<close> pixels.
\<close>

record image =
  img_shape0 :: nat
  img_shape1 :: nat
  img_rows :: "real list list list"

definition fliplr :: "image \<Rightarrow> image" where
  "fliplr theImage = theImage\<lparr>img_rows := map rev (img_rows theImage)\<rparr>"

definition flipud :: "image \<Rightarrow> image" where
  "flipud theImage = theImage\<lparr>img_rows := rev (img_rows theImage)\<rparr>"




section \<open>util.add\_vigneting and util.transform\_image\<close>

text \<open>Python's \<^verbatim>\<open>int\<close> on a float: truncation towards zero.\<close>

definition py_int :: "real \<Rightarrow> int" where
  "py_int x = (if 0 \<le> x then \<lfloor>x\<rfloor> else \<lceil>x\<rceil>)"

text \<open>
  The Gaussian mask of line 71 at row \<open>y\<close> and column \<open>x\<close>, before normalisation.
\<close>

definition vignet_mask :: "real \<Rightarrow> int \<Rightarrow> int \<Rightarrow> nat \<Rightarrow> nat \<Rightarrow> real" where
  "vignet_mask theSigma xCenter yCenter y x =
     (let theX = int x - xCenter; theY = int y - yCenter
      in exp (- real_of_int (theX * theX + theY * theY) / (2 * theSigma ^ 2)))"

text \<open>
  \<^verbatim>\<open>np.max\<close> of an array without elements raises ValueError. For \<open>theSigma = 0\<close> numpy
  computes with infinities and NaN and raises nothing; the pixel values of the model are
  those of numpy for \<open>theSigma \<noteq> 0\<close>.
\<close>

definition add_vigneting :: "image \<Rightarrow> real \<Rightarrow> real \<Rightarrow> real \<Rightarrow> py_error + image" where
  "add_vigneting theImage sigmaMultiplier xRelCenter yRelCenter =
     (let theSigma = sigmaMultiplier * real (max (img_shape0 theImage) (img_shape1 theImage)) / 2;
          xCenter = py_int (real (img_shape1 theImage) * xRelCenter);
          yCenter = py_int (real (img_shape0 theImage) * yRelCenter);
          theMask = vignet_mask theSigma xCenter yCenter
      in if img_shape0 theImage = 0 \<or> img_shape1 theImage = 0 then Inl ValueError
         else
           (let maxMask = Max (set (concat (map (\<lambda>y. map (theMask y) [0..<img_shape1 theImage])
                                              [0..<img_shape0 theImage])))
            in Inr (theImage\<lparr>img_rows :=
                 map (\<lambda>(y, row). map (\<lambda>(x, pixel). map (\<lambda>v. v * (theMask y x / maxMask)) pixel)
                                   (zip [0..<length row] row))
                     (zip [0..<length (img_rows theImage)] (img_rows theImage))\<rparr>)))"

text \<open>The label comprehensions of lines 104 and 110.\<close>

definition flip_labels_lr :: "image \<Rightarrow> abs_label list \<Rightarrow> abs_label list" where
  "flip_labels_lr theImage theLabels =
     map (\<lambda>curLabel.
            \<lparr>lbl_class = lbl_class curLabel,
             lbl_xLeft = int (img_shape1 theImage) - 1 - lbl_xRight curLabel,
             lbl_yTop = lbl_yTop curLabel,
             lbl_xRight = int (img_shape1 theImage) - 1 - lbl_xLeft curLabel,
             lbl_yBottom = lbl_yBottom curLabel,
             lbl_area = lbl_area curLabel\<rparr>) theLabels"

definition flip_labels_ud :: "image \<Rightarrow> abs_label list \<Rightarrow> abs_label list" where
  "flip_labels_ud theImage theLabels =
     map (\<lambda>curLabel.
            \<lparr>lbl_class = lbl_class curLabel,
             lbl_xLeft = lbl_xLeft curLabel,
             lbl_yTop = int (img_shape0 theImage) - 1 - lbl_yBottom curLabel,
             lbl_xRight = lbl_xRight curLabel,
             lbl_yBottom = int (img_shape0 theImage) - 1 - lbl_yTop curLabel,
             lbl_area = lbl_area curLabel\<rparr>) theLabels"

text \<open>Lines 100 to 104 and lines 106 to 110: the two flips, on the image and its labels.\<close>

definition horizontal_flip :: "image \<times> abs_label list \<Rightarrow> image \<times> abs_label list" where
  "horizontal_flip p = (case p of (theImage, theLabels) \<Rightarrow>
     (fliplr theImage, flip_labels_lr (fliplr theImage) theLabels))"

definition vertical_flip :: "image \<times> abs_label list \<Rightarrow> image \<times> abs_label list" where
  "vertical_flip p = (case p of (theImage, theLabels) \<Rightarrow>
     (flipud theImage, flip_labels_ud (flipud theImage) theLabels))"

text \<open>Line 112: \<^verbatim>\<open>np.clip(theImage+(brightValue*brightScale*2)-brightScale,0,1)\<close>.\<close>

definition change_brightness :: "image \<Rightarrow> real \<Rightarrow> real \<Rightarrow> image" where
  "change_brightness theImage brightValue brightScale =
     theImage\<lparr>img_rows :=
       map (map (map (\<lambda>v. min 1 (max 0 (v + (brightValue * brightScale * 2) - brightScale))))) (img_rows theImage)\<rparr>"

text \<open>Lines 99 to 110: the flips that the bits 0 and 1 of \<open>flipValue\<close> ask for.\<close>

definition apply_flips :: "int \<Rightarrow> image \<times> abs_label list \<Rightarrow> image \<times> abs_label list" where
  "apply_flips flipValue p =
     (let p1 = (if flipValue AND 1 \<noteq> 0 then horizontal_flip p else p)
      in if flipValue AND 2 \<noteq> 0 then vertical_flip p1 else p1)"

definition transform_image ::
  "image \<Rightarrow> abs_label list \<Rightarrow> int \<Rightarrow> real \<Rightarrow> real \<Rightarrow> real \<Rightarrow> real \<Rightarrow> real
   \<Rightarrow> py_error + image \<times> abs_label list" where
  "transform_image theImage theLabels flipValue brightValue brightScale sigmaMultiplier xRelCenter yRelCenter =
     (case apply_flips flipValue (theImage, theLabels) of
        (flipped, theLabels') \<Rightarrow>
          (case add_vigneting (change_brightness flipped brightValue brightScale)
                  sigmaMultiplier xRelCenter yRelCenter of
             Inl e \<Rightarrow> Inl e
           | Inr vignetted \<Rightarrow> Inr (vignetted, theLabels')))"

section \<open>The random source\<close>

text \<open>
  The state of numpy's global generator is a list of raw draws, each call using up one.
  \<^verbatim>\<open>np.random.randint(low,high)\<close> raises ValueError when \<open>low \<ge> high\<close> and returns an
  integer of \<open>[low, high)\<close> otherwise; \<^verbatim>\<open>np.random.random()\<close> returns a float of \<open>[0, 1)\<close>.
\<close>

type_synonym rng = "nat list"

definition randint :: "int \<Rightarrow> int \<Rightarrow> rng \<Rightarrow> py_error + int \<times> rng" where
  "randint low high g =
     (if low \<ge> high then Inl ValueError
      else case g of [] \<Rightarrow> Inl OutOfDraws
                   | r # g' \<Rightarrow> Inr (low + int r mod (high - low), g'))"


section \<open>mosaicdataset.MosaicDataSet\<close>

text \<open>
  The members of the class that \<^verbatim>\<open>get_image\<close> reads. The bounds \<open>_mosaicXMin\<close> to
  \<open>_mosaicYMax\<close> are the products that \<^verbatim>\<open>set_mosaic_ratio\<close> stores, taken as integers (as
  they are for the ratios 0 and 1).
\<close>

record mosaic_dataset =
  mds_imgWidth :: int
  mds_imgHeight :: int
  mds_minLabels :: int
  mds_minArea :: real
  mds_maxIter :: int
  mds_brightScale :: real
  mds_minVSigma :: real
  mds_maxVSigma :: real
  mds_minVX :: real
  mds_maxVX :: real
  mds_minVY :: real
  mds_maxVY :: real
  mds_rejectPartial :: bool
  mds_theMosaic :: image
  mds_theLabels :: "abs_label list"
  mds_mosaicXMin :: int
  mds_mosaicXMax :: int
  mds_mosaicYMin :: int
  mds_mosaicYMax :: int

type_synonym rectangle = "int \<times> int \<times> int \<times> int"

type_synonym trial = "rectangle \<times> abs_label list"

text \<open>
  The \<^verbatim>\<open>while doSearch\<close> loop of lines 158 to 167: draw a rectangle, search its labels,
  draw again if a partial label was met and \<open>_rejectPartial\<close> is set. It ends with the
  rectangle, its labels and the rest of the draws.
\<close>

function search_rectangle :: "mosaic_dataset \<Rightarrow> rng \<Rightarrow> py_error + trial \<times> rng" where
  "search_rectangle self g =
     (case randint (mds_mosaicXMin self) (mds_mosaicXMax self - mds_imgWidth self) g of
        Inl e \<Rightarrow> Inl e
      | Inr (xLeft, g1) \<Rightarrow>
          (case randint (mds_mosaicYMin self) (mds_mosaicYMax self - mds_imgHeight self) g1 of
             Inl e \<Rightarrow> Inl e
           | Inr (yTop, g2) \<Rightarrow>
               (let xRight = xLeft + mds_imgWidth self;
                    yBottom = yTop + mds_imgHeight self
                in case get_labels_in_rectangle (mds_theLabels self) xLeft yTop xRight yBottom
                          (mds_minArea self) (mds_rejectPartial self) of
                     Inl e \<Rightarrow> Inl e
                   | Inr (curLabels, isPartial) \<Rightarrow>
                       if mds_rejectPartial self \<and> isPartial then search_rectangle self g2
                       else Inr (((xLeft, yTop, xRight, yBottom), curLabels), g2))))"
  by pat_completeness auto
termination
  by (relation "measure (\<lambda>(self, g). length g)")
     (auto simp: randint_def split: if_splits list.splits)

declare search_rectangle.simps [simp del]

text \<open>
  Lines 170 to 173: the bookkeeping of the best rectangle. \<open>bestRect\<close> and \<open>bestLabels\<close> are
  unbound until the first assignment (\<open>None\<close>).
\<close>

definition store_best :: "nat \<Rightarrow> trial option \<Rightarrow> trial \<Rightarrow> nat \<times> trial option" where
  "store_best maxLabels best cur =
     (let numLabels = length (snd cur)
      in if numLabels > maxLabels \<or> maxLabels = 0 then (numLabels, Some cur)
         else (maxLabels, best))"

text \<open>
  The \<^verbatim>\<open>for\<close> loop of lines 153 to 176, with the number of iterations left, \<open>maxLabels\<close>
  and the best rectangle so far as state.
\<close>

fun get_image_loop ::
  "mosaic_dataset \<Rightarrow> nat \<Rightarrow> nat \<Rightarrow> trial option \<Rightarrow> rng \<Rightarrow> py_error + trial option \<times> rng" where
  "get_image_loop self 0 maxLabels best g = Inr (best, g)"
| "get_image_loop self (Suc n) maxLabels best g =
     (case search_rectangle self g of
        Inl e \<Rightarrow> Inl e
      | Inr (cur, g') \<Rightarrow>
          (case store_best maxLabels best cur of
             (maxLabels', best') \<Rightarrow>
               if int (length (snd cur)) \<ge> mds_minLabels self then Inr (best', g')
               else get_image_loop self n maxLabels' best' g'))"

declare get_image_loop.simps(2) [simp del]

text \<open>
  Lines 152 to 176, and the read of \<open>bestRect\<close> at line 178, which raises UnboundLocalError
  when the loop has assigned nothing.
\<close>

definition get_image_search :: "mosaic_dataset \<Rightarrow> rng \<Rightarrow> py_error + trial \<times> rng" where
  "get_image_search self g =
     (case get_image_loop self (nat (mds_maxIter self)) 0 None g of
        Inl e \<Rightarrow> Inl e
      | Inr (None, g') \<Rightarrow> Inl UnboundLocalError
      | Inr (Some best, g') \<Rightarrow> Inr (best, g'))"




section \<open>Notions used to state the properties\<close>


text \<open>
  Zero overlap as the specification's data model has it: the label's box covers the
  columns \<open>xLeft\<close> to \<open>xRight - 1\<close> and the rows \<open>yTop\<close> to \<open>yBottom - 1\<close> (its area is
  \<open>(xRight - xLeft) * (yBottom - yTop)\<close>), the rectangle likewise, and the two share no
  pixel.
\<close>

definition zero_overlap :: "abs_label \<Rightarrow> int \<Rightarrow> int \<Rightarrow> int \<Rightarrow> int \<Rightarrow> bool" where
  "zero_overlap l xLeft yTop xRight yBottom \<longleftrightarrow>
     max (lbl_xLeft l) xLeft \<ge> min (lbl_xRight l) xRight \<or>
     max (lbl_yTop l) yTop \<ge> min (lbl_yBottom l) yBottom"

text \<open>The labels accumulated before a scan, put in front of its result.\<close>

definition prepend_out ::
  "abs_label list \<Rightarrow> py_error + abs_label list \<times> bool \<Rightarrow> py_error + abs_label list \<times> bool" where
  "prepend_out out r = (case r of Inl e \<Rightarrow> Inl e | Inr (res, p) \<Rightarrow> Inr (out @ res, p))"


text \<open>The label count of the recorded best trial, 0 when none is recorded.\<close>

definition best_count :: "trial option \<Rightarrow> nat" where
  "best_count best = (case best of None \<Rightarrow> 0 | Some t \<Rightarrow> length (snd t))"





text \<open>
  A small data set for concrete runs: a mosaic of 10 by 10 pixels with one label, tiles of
  4 by 4 pixels drawn in the whole mosaic, two labels asked for, two iterations.
\<close>

definition demo_mosaic :: image where
  "demo_mosaic =
     \<lparr>img_shape0 = 10, img_shape1 = 10, img_rows = replicate 10 (replicate 10 [1 / 2])\<rparr>"

definition demo_dataset :: mosaic_dataset where
  "demo_dataset =
     \<lparr>mds_imgWidth = 4, mds_imgHeight = 4, mds_minLabels = 2, mds_minArea = 1 / 2,
      mds_maxIter = 2, mds_brightScale = 1 / 10, mds_minVSigma = 1 / 2, mds_maxVSigma = 5 / 4,
      mds_minVX = 2 / 5, mds_maxVX = 3 / 5, mds_minVY = 2 / 5, mds_maxVY = 3 / 5,
      mds_rejectPartial = False, mds_theMosaic = demo_mosaic,
      mds_theLabels = [\<lparr>lbl_class = 0, lbl_xLeft = 2, lbl_yTop = 2, lbl_xRight = 4,
                         lbl_yBottom = 4, lbl_area = 4\<rparr>],
      mds_mosaicXMin = 0, mds_mosaicXMax = 10, mds_mosaicYMin = 0, mds_mosaicYMax = 10\<rparr>"

section \<open>Properties of get\_labels\_in\_rectangle\<close>

lemma prepend_out_simps [simp]:
  "prepend_out out (Inl e) = Inl e"
  "prepend_out out (Inr (res, p)) = Inr (out @ res, p)"
  by (simp_all add: prepend_out_def)

lemma prepend_out_twice: "prepend_out a (prepend_out b r) = prepend_out (a @ b) r"
  by (cases r) (auto simp: prepend_out_def)

lemma loop_skip:
  "\<not> label_inside l xLeft yTop xRight yBottom \<Longrightarrow>
   get_labels_loop (pre @ l # post) xLeft yTop xRight yBottom minPct rp out =
   get_labels_loop (pre @ post) xLeft yTop xRight yBottom minPct rp out"
  by (induction pre arbitrary: out) (simp_all add: Let_def)

lemma loop_append:
  "get_labels_loop (xs @ ys) xLeft yTop xRight yBottom minPct rp out =
     (case get_labels_loop xs xLeft yTop xRight yBottom minPct rp out of
        Inl e \<Rightarrow> Inl e
      | Inr (out1, isPartial) \<Rightarrow>
          if isPartial then Inr (out1, True)
          else get_labels_loop ys xLeft yTop xRight yBottom minPct rp out1)"
  by (induction xs arbitrary: out) (simp_all add: Let_def)

lemma loop_acc:
  "get_labels_loop ls xLeft yTop xRight yBottom minPct rp out =
     prepend_out out (get_labels_loop ls xLeft yTop xRight yBottom minPct rp [])"
proof (induction ls arbitrary: out)
  case Nil
  show ?case by simp
next
  case (Cons a ls)
  let ?new = "clipped_label a xLeft yTop xRight yBottom"
  have a1: "get_labels_loop ls xLeft yTop xRight yBottom minPct rp (out @ [?new]) =
        prepend_out (out @ [?new]) (get_labels_loop ls xLeft yTop xRight yBottom minPct rp [])"
    by (rule Cons.IH)
  have a2: "get_labels_loop ls xLeft yTop xRight yBottom minPct rp [?new] =
        prepend_out [?new] (get_labels_loop ls xLeft yTop xRight yBottom minPct rp [])"
    by (rule Cons.IH)
  have a3: "get_labels_loop ls xLeft yTop xRight yBottom minPct rp out =
        prepend_out out (get_labels_loop ls xLeft yTop xRight yBottom minPct rp [])"
    by (rule Cons.IH)
  show ?case
    unfolding get_labels_loop.simps Let_def a1 a2 append_Nil
    by (simp add: prepend_out_twice a3)
qed

text \<open>Every label of the result beyond the accumulator is the clipping of a candidate.\<close>

lemma loop_origin:
  "get_labels_loop ls xLeft yTop xRight yBottom minPct rp out = Inr (res, p) \<Longrightarrow>
   x \<in> set res \<Longrightarrow> x \<notin> set out \<Longrightarrow>
   \<exists>l \<in> set ls. label_inside l xLeft yTop xRight yBottom \<and>
      x = clipped_label l xLeft yTop xRight yBottom"
proof (induction ls arbitrary: out)
  case Nil
  then show ?case by simp
next
  case (Cons a ls)
  show ?case
  proof (cases "label_inside a xLeft yTop xRight yBottom")
    case False
    with Cons.prems
    have "get_labels_loop ls xLeft yTop xRight yBottom minPct rp out = Inr (res, p)"
      by simp
    from Cons.IH [OF this Cons.prems(2,3)] show ?thesis by auto
  next
    case inside: True
    let ?new = "clipped_label a xLeft yTop xRight yBottom"
    let ?ratio = "real_of_int (lbl_area ?new) / real_of_int (lbl_area a)"
    from inside Cons.prems(1) have nz: "lbl_area a \<noteq> 0"
      by (auto simp: Let_def split: if_splits)
    show ?thesis
    proof (cases "rp \<and> ?ratio < 1")
      case True
      with inside nz Cons.prems show ?thesis
        by (auto simp: Let_def)
    next
      case stop: False
      show ?thesis
      proof (cases "?ratio \<ge> minPct")
        case True
        with stop inside nz Cons.prems(1)
        have run: "get_labels_loop ls xLeft yTop xRight yBottom minPct rp (out @ [?new]) = Inr (res, p)"
          by (auto simp: Let_def)
        show ?thesis
        proof (cases "x = ?new")
          case True
          with inside show ?thesis by auto
        next
          case False
          with Cons.prems(3) have "x \<notin> set (out @ [?new])" by simp
          from Cons.IH [OF run Cons.prems(2) this] show ?thesis by auto
        qed
      next
        case False
        with stop inside nz Cons.prems(1)
        have "get_labels_loop ls xLeft yTop xRight yBottom minPct rp out = Inr (res, p)"
          by (auto simp: Let_def)
        from Cons.IH [OF this Cons.prems(2,3)] show ?thesis by auto
      qed
    qed
  qed
qed


lemma clipped_contained:
  assumes "xLeft \<le> lbl_xLeft l" "lbl_xRight l \<le> xRight" "yTop \<le> lbl_yTop l" "lbl_yBottom l \<le> yBottom"
  shows "clipped_label l xLeft yTop xRight yBottom =
     \<lparr>lbl_class = lbl_class l, lbl_xLeft = lbl_xLeft l - xLeft, lbl_yTop = lbl_yTop l - yTop,
      lbl_xRight = lbl_xRight l - xLeft, lbl_yBottom = lbl_yBottom l - yTop,
      lbl_area = (lbl_xRight l - lbl_xLeft l) * (lbl_yBottom l - lbl_yTop l)\<rparr>"
  using assms by (simp add: clipped_label_def Let_def max_def min_def)

lemma clipped_bounds:
  assumes "label_inside l xLeft yTop xRight yBottom"
    and "lbl_xLeft l \<le> lbl_xRight l" "lbl_yTop l \<le> lbl_yBottom l"
    and "xLeft \<le> xRight" "yTop \<le> yBottom"
  shows "0 \<le> lbl_xLeft (clipped_label l xLeft yTop xRight yBottom)"
    "lbl_xLeft (clipped_label l xLeft yTop xRight yBottom)
       \<le> lbl_xRight (clipped_label l xLeft yTop xRight yBottom)"
    "lbl_xRight (clipped_label l xLeft yTop xRight yBottom) \<le> xRight - xLeft"
    "0 \<le> lbl_yTop (clipped_label l xLeft yTop xRight yBottom)"
    "lbl_yTop (clipped_label l xLeft yTop xRight yBottom)
       \<le> lbl_yBottom (clipped_label l xLeft yTop xRight yBottom)"
    "lbl_yBottom (clipped_label l xLeft yTop xRight yBottom) \<le> yBottom - yTop"
    "lbl_area (clipped_label l xLeft yTop xRight yBottom) =
       (lbl_xRight (clipped_label l xLeft yTop xRight yBottom)
          - lbl_xLeft (clipped_label l xLeft yTop xRight yBottom)) *
       (lbl_yBottom (clipped_label l xLeft yTop xRight yBottom)
          - lbl_yTop (clipped_label l xLeft yTop xRight yBottom))"
  using assms by (simp_all add: clipped_label_def label_inside_def Let_def)

text \<open>
  \<open>zero_overlap\<close> says that no pixel lies in both boxes, the right and bottom bounds
  being exclusive.
\<close>

lemma zero_overlap_pixels:
  "zero_overlap l xLeft yTop xRight yBottom \<longleftrightarrow>
   \<not> (\<exists>x y. lbl_xLeft l \<le> x \<and> x < lbl_xRight l \<and> lbl_yTop l \<le> y \<and> y < lbl_yBottom l \<and>
            xLeft \<le> x \<and> x < xRight \<and> yTop \<le> y \<and> y < yBottom)"
proof
  assume "zero_overlap l xLeft yTop xRight yBottom"
  then show "\<not> (\<exists>x y. lbl_xLeft l \<le> x \<and> x < lbl_xRight l \<and> lbl_yTop l \<le> y \<and> y < lbl_yBottom l \<and>
            xLeft \<le> x \<and> x < xRight \<and> yTop \<le> y \<and> y < yBottom)"
    by (auto simp: zero_overlap_def)
next
  assume n: "\<not> (\<exists>x y. lbl_xLeft l \<le> x \<and> x < lbl_xRight l \<and> lbl_yTop l \<le> y \<and> y < lbl_yBottom l \<and>
            xLeft \<le> x \<and> x < xRight \<and> yTop \<le> y \<and> y < yBottom)"
  show "zero_overlap l xLeft yTop xRight yBottom"
  proof (rule ccontr)
    assume "\<not> zero_overlap l xLeft yTop xRight yBottom"
    then have "max (lbl_xLeft l) xLeft < min (lbl_xRight l) xRight"
      and "max (lbl_yTop l) yTop < min (lbl_yBottom l) yBottom"
      by (auto simp: zero_overlap_def)
    then have "lbl_xLeft l \<le> max (lbl_xLeft l) xLeft \<and> max (lbl_xLeft l) xLeft < lbl_xRight l \<and>
       lbl_yTop l \<le> max (lbl_yTop l) yTop \<and> max (lbl_yTop l) yTop < lbl_yBottom l \<and>
       xLeft \<le> max (lbl_xLeft l) xLeft \<and> max (lbl_xLeft l) xLeft < xRight \<and>
       yTop \<le> max (lbl_yTop l) yTop \<and> max (lbl_yTop l) yTop < yBottom"
      by simp
    with n show False by blast
  qed
qed

text \<open>
  The candidate test of the code is the overlap of the rectangle with the label's box
  when the label's right and bottom bounds are taken as inclusive pixel coordinates.
\<close>

lemma label_inside_pixels:
  assumes "lbl_xLeft l \<le> lbl_xRight l" "lbl_yTop l \<le> lbl_yBottom l" "xLeft < xRight" "yTop < yBottom"
  shows "label_inside l xLeft yTop xRight yBottom \<longleftrightarrow>
   (\<exists>x y. lbl_xLeft l \<le> x \<and> x \<le> lbl_xRight l \<and> lbl_yTop l \<le> y \<and> y \<le> lbl_yBottom l \<and>
            xLeft \<le> x \<and> x < xRight \<and> yTop \<le> y \<and> y < yBottom)"
proof
  assume i: "label_inside l xLeft yTop xRight yBottom"
  have "lbl_xLeft l \<le> max (lbl_xLeft l) xLeft \<and> max (lbl_xLeft l) xLeft \<le> lbl_xRight l \<and>
       lbl_yTop l \<le> max (lbl_yTop l) yTop \<and> max (lbl_yTop l) yTop \<le> lbl_yBottom l \<and>
       xLeft \<le> max (lbl_xLeft l) xLeft \<and> max (lbl_xLeft l) xLeft < xRight \<and>
       yTop \<le> max (lbl_yTop l) yTop \<and> max (lbl_yTop l) yTop < yBottom"
    using i assms by (simp add: label_inside_def)
  then show "\<exists>x y. lbl_xLeft l \<le> x \<and> x \<le> lbl_xRight l \<and> lbl_yTop l \<le> y \<and> y \<le> lbl_yBottom l \<and>
            xLeft \<le> x \<and> x < xRight \<and> yTop \<le> y \<and> y < yBottom"
    by blast
next
  assume "\<exists>x y. lbl_xLeft l \<le> x \<and> x \<le> lbl_xRight l \<and> lbl_yTop l \<le> y \<and> y \<le> lbl_yBottom l \<and>
            xLeft \<le> x \<and> x < xRight \<and> yTop \<le> y \<and> y < yBottom"
  then show "label_inside l xLeft yTop xRight yBottom"
    by (auto simp: label_inside_def)
qed

text \<open>
  A candidate that shares no pixel with the rectangle has a clipped area of 0: it is
  dropped for a positive \<open>minPct\<close>, and it stops the scan when \<open>rejectPartial\<close> is set.
\<close>

lemma abutting_area:
  assumes "zero_overlap l xLeft yTop xRight yBottom"
    and "label_inside l xLeft yTop xRight yBottom"
    and "lbl_xLeft l \<le> lbl_xRight l" "lbl_yTop l \<le> lbl_yBottom l"
    and "xLeft \<le> xRight" "yTop \<le> yBottom"
  shows "lbl_area (clipped_label l xLeft yTop xRight yBottom) = 0"
proof -
  have w: "min (xRight - xLeft) (lbl_xRight l - xLeft) - max 0 (lbl_xLeft l - xLeft) =
           min (lbl_xRight l) xRight - max (lbl_xLeft l) xLeft"
    by (simp add: min_def max_def)
  have h: "min (yBottom - yTop) (lbl_yBottom l - yTop) - max 0 (lbl_yTop l - yTop) =
           min (lbl_yBottom l) yBottom - max (lbl_yTop l) yTop"
    by (simp add: min_def max_def)
  have wn: "0 \<le> min (lbl_xRight l) xRight - max (lbl_xLeft l) xLeft"
    using assms(2,3,5) by (simp add: label_inside_def)
  have hn: "0 \<le> min (lbl_yBottom l) yBottom - max (lbl_yTop l) yTop"
    using assms(2,4,6) by (simp add: label_inside_def)
  from assms(1) wn hn
  have "min (lbl_xRight l) xRight - max (lbl_xLeft l) xLeft = 0 \<or>
        min (lbl_yBottom l) yBottom - max (lbl_yTop l) yTop = 0"
    unfolding zero_overlap_def by linarith
  then show ?thesis
    by (auto simp: clipped_label_def Let_def w h)
qed

lemma abutting_step_keep_going:
  assumes "zero_overlap l xLeft yTop xRight yBottom"
    and "lbl_xLeft l \<le> lbl_xRight l" "lbl_yTop l \<le> lbl_yBottom l"
    and "xLeft \<le> xRight" "yTop \<le> yBottom"
    and "lbl_area l \<noteq> 0" "0 < minPct"
  shows "get_labels_loop (l # post) xLeft yTop xRight yBottom minPct False out =
         get_labels_loop post xLeft yTop xRight yBottom minPct False out"
proof (cases "label_inside l xLeft yTop xRight yBottom")
  case True
  from abutting_area [OF assms(1) True assms(2-5)] True assms(6,7) show ?thesis
    by (simp add: Let_def)
next
  case False
  then show ?thesis by simp
qed

lemma abutting_step_stop:
  assumes "zero_overlap l xLeft yTop xRight yBottom"
    and "label_inside l xLeft yTop xRight yBottom"
    and "lbl_xLeft l \<le> lbl_xRight l" "lbl_yTop l \<le> lbl_yBottom l"
    and "xLeft \<le> xRight" "yTop \<le> yBottom"
    and "lbl_area l \<noteq> 0"
  shows "get_labels_loop (l # post) xLeft yTop xRight yBottom minPct True out = Inr (out, True)"
  using abutting_area [OF assms(1-6)] assms(2,7) by (simp add: Let_def)

lemma abutting_step_append:
  assumes "zero_overlap l xLeft yTop xRight yBottom"
    and "label_inside l xLeft yTop xRight yBottom"
    and "lbl_xLeft l \<le> lbl_xRight l" "lbl_yTop l \<le> lbl_yBottom l"
    and "xLeft \<le> xRight" "yTop \<le> yBottom"
    and "lbl_area l \<noteq> 0" "minPct \<le> 0"
  shows "get_labels_loop (l # post) xLeft yTop xRight yBottom minPct False out =
         get_labels_loop post xLeft yTop xRight yBottom minPct False
           (out @ [clipped_label l xLeft yTop xRight yBottom])"
  using abutting_area [OF assms(1-6)] assms(2,7,8) by (simp add: Let_def)




text \<open>
  C5 (amended). Let the label \<open>l\<close> satisfy the area invariant, have a non-zero area and
  lie inside the rectangle, and let \<open>minPct \<le> 1\<close>. Its area ratio is 1, and where the
  scan of the labels before it reaches the end (\<open>isPartial = False\<close>), the label is
  kept: the result holds it with the same class, width, height and area, moved by
  \<open>(- xLeft, - yTop)\<close>, between the labels kept before and after it. For the list \<open>[l]\<close>
  (\<open>pre = post = []\<close>) the result is this one label and \<open>isPartial = False\<close>.
\<close>

theorem clip_contained_label:
  assumes "lbl_area l = (lbl_xRight l - lbl_xLeft l) * (lbl_yBottom l - lbl_yTop l)"
    and "lbl_area l \<noteq> 0"
    and "xLeft \<le> lbl_xLeft l" "lbl_xLeft l \<le> lbl_xRight l" "lbl_xRight l \<le> xRight"
    and "yTop \<le> lbl_yTop l" "lbl_yTop l \<le> lbl_yBottom l" "lbl_yBottom l \<le> yBottom"
    and "minPct \<le> 1"
    and "get_labels_in_rectangle pre xLeft yTop xRight yBottom minPct rejectPartial = Inr (out1, False)"
    and "get_labels_in_rectangle post xLeft yTop xRight yBottom minPct rejectPartial = Inr (out2, p)"
  shows "real_of_int (lbl_area (clipped_label l xLeft yTop xRight yBottom)) / real_of_int (lbl_area l) = 1
     \<and> get_labels_in_rectangle (pre @ l # post) xLeft yTop xRight yBottom minPct rejectPartial =
         Inr (out1 @ \<lparr>lbl_class = lbl_class l, lbl_xLeft = lbl_xLeft l - xLeft,
                      lbl_yTop = lbl_yTop l - yTop, lbl_xRight = lbl_xRight l - xLeft,
                      lbl_yBottom = lbl_yBottom l - yTop, lbl_area = lbl_area l\<rparr> # out2, p)"
proof -
  let ?s = "\<lparr>lbl_class = lbl_class l, lbl_xLeft = lbl_xLeft l - xLeft, lbl_yTop = lbl_yTop l - yTop,
      lbl_xRight = lbl_xRight l - xLeft, lbl_yBottom = lbl_yBottom l - yTop,
      lbl_area = lbl_area l\<rparr>"
  have cl: "clipped_label l xLeft yTop xRight yBottom = ?s"
    using clipped_contained [OF assms(3) assms(5) assms(6) assms(8)] assms(1) by simp
  from assms(1,2) have "lbl_xLeft l \<noteq> lbl_xRight l" "lbl_yTop l \<noteq> lbl_yBottom l" by auto
  with assms(3-8) have ins: "label_inside l xLeft yTop xRight yBottom"
    by (simp add: label_inside_def)
  have ratio: "real_of_int (lbl_area (clipped_label l xLeft yTop xRight yBottom))
                 / real_of_int (lbl_area l) = 1"
    using assms(2) by (simp add: cl)
  have step: "get_labels_loop (l # post) xLeft yTop xRight yBottom minPct rejectPartial out =
      get_labels_loop post xLeft yTop xRight yBottom minPct rejectPartial (out @ [?s])" for out
    using ins assms(2) ratio assms(9) by (simp add: Let_def cl)
  have "get_labels_loop (pre @ l # post) xLeft yTop xRight yBottom minPct rejectPartial [] =
       get_labels_loop post xLeft yTop xRight yBottom minPct rejectPartial (out1 @ [?s])"
    using assms(10) unfolding loop_append get_labels_in_rectangle_def step by simp
  also have "\<dots> = prepend_out (out1 @ [?s])
                     (get_labels_loop post xLeft yTop xRight yBottom minPct rejectPartial [])"
    by (rule loop_acc)
  also have "\<dots> = Inr (out1 @ ?s # out2, p)"
    using assms(11) by (simp add: get_labels_in_rectangle_def)
  finally have "get_labels_in_rectangle (pre @ l # post) xLeft yTop xRight yBottom minPct rejectPartial =
            Inr (out1 @ ?s # out2, p)"
    by (simp add: get_labels_in_rectangle_def)
  with ratio show ?thesis by blast
qed

text \<open>
  The scenario of the specification: the labels \<open>[(0,100,100,200,200,10000)]\<close> and the
  rectangle \<open>(50,50,250,250)\<close> give \<open>[(0,50,50,150,150,10000)]\<close> and \<open>isPartial = False\<close>.
\<close>

theorem clip_contained_label_witness:
  "get_labels_in_rectangle [] 50 50 250 250 (1 / 2) False = Inr ([], False) \<and>
   get_labels_in_rectangle [\<lparr>lbl_class = 0, lbl_xLeft = 100, lbl_yTop = 100, lbl_xRight = 200,
       lbl_yBottom = 200, lbl_area = 10000\<rparr>] 50 50 250 250 (1 / 2) False =
     Inr ([\<lparr>lbl_class = 0, lbl_xLeft = 50, lbl_yTop = 50, lbl_xRight = 150,
            lbl_yBottom = 150, lbl_area = 10000\<rparr>], False)"
proof -
  let ?l = "\<lparr>lbl_class = 0, lbl_xLeft = 100, lbl_yTop = 100, lbl_xRight = 200,
       lbl_yBottom = 200, lbl_area = 10000\<rparr>"
  have e: "get_labels_in_rectangle [] 50 50 250 250 (1 / 2) False = Inr ([], False)"
    by (simp add: get_labels_in_rectangle_def)
  from clip_contained_label [where l = ?l and xLeft = 50 and yTop = 50 and xRight = 250
      and yBottom = 250 and minPct = "1 / 2" and rejectPartial = False and pre = "[]"
      and post = "[]" and ?out1.0 = "[]" and ?out2.0 = "[]" and p = False, OF _ _ _ _ _ _ _ _ _ e e]
  show ?thesis using e by simp
qed

text \<open>
  C5 as stated fails: a label that satisfies the area invariant and lies inside the
  rectangle, but has area 0, is not returned; the scan raises ZeroDivisionError.
\<close>

theorem clip_contained_zero_area:
  "lbl_area \<lparr>lbl_class = 0, lbl_xLeft = 100, lbl_yTop = 100, lbl_xRight = 100,
       lbl_yBottom = 100, lbl_area = 0\<rparr> = (100 - 100) * (100 - 100) \<and>
   get_labels_in_rectangle [\<lparr>lbl_class = 0, lbl_xLeft = 100, lbl_yTop = 100, lbl_xRight = 100,
       lbl_yBottom = 100, lbl_area = 0\<rparr>] 50 50 250 250 (1 / 2) False = Inl ZeroDivisionError"
  by (simp add: get_labels_in_rectangle_def label_inside_def clipped_label_def)

text \<open>
  C6 (amended). A label that fails the candidate test of the code (it ends before the
  first column or row of the rectangle, or starts at or after \<open>xRight\<close> or \<open>yBottom\<close>)
  contributes nothing: for every \<open>minPct\<close> and \<open>rejectPartial\<close> the result is the one
  obtained without that label. Let now the rectangle have \<open>xLeft \<le> xRight\<close> and
  \<open>yTop \<le> yBottom\<close>, and let the label have \<open>xLeft \<le> xRight\<close>, \<open>yTop \<le> yBottom\<close>, a
  non-zero area and no pixel in common with the rectangle. When \<open>rejectPartial\<close> is false
  and \<open>minPct > 0\<close>, the label contributes nothing either. When the label passes the
  candidate test, its clipped area is 0: with \<open>rejectPartial\<close> set the scan stops at it
  and returns the labels accumulated before it with \<open>isPartial = True\<close>, and with
  \<open>rejectPartial\<close> false and \<open>minPct \<le> 0\<close> the label is in the output, clipped, with
  area 0, between the labels kept before and after it.
\<close>

theorem clip_excludes_zero_overlap:
  "(\<not> label_inside l xLeft yTop xRight yBottom \<longrightarrow>
      get_labels_in_rectangle (pre @ l # post) xLeft yTop xRight yBottom minPct rejectPartial =
      get_labels_in_rectangle (pre @ post) xLeft yTop xRight yBottom minPct rejectPartial)
   \<and> (zero_overlap l xLeft yTop xRight yBottom \<and>
       lbl_xLeft l \<le> lbl_xRight l \<and> lbl_yTop l \<le> lbl_yBottom l \<and> lbl_area l \<noteq> 0 \<and>
       xLeft \<le> xRight \<and> yTop \<le> yBottom \<longrightarrow>
       (0 < minPct \<longrightarrow>
          get_labels_in_rectangle (pre @ l # post) xLeft yTop xRight yBottom minPct False =
          get_labels_in_rectangle (pre @ post) xLeft yTop xRight yBottom minPct False) \<and>
       (label_inside l xLeft yTop xRight yBottom \<longrightarrow>
          get_labels_in_rectangle (pre @ l # post) xLeft yTop xRight yBottom minPct True =
          (case get_labels_in_rectangle pre xLeft yTop xRight yBottom minPct True of
             Inl e \<Rightarrow> Inl e | Inr (out, isPartial) \<Rightarrow> Inr (out, True))) \<and>
       (label_inside l xLeft yTop xRight yBottom \<and> minPct \<le> 0 \<and>
        get_labels_in_rectangle pre xLeft yTop xRight yBottom minPct False = Inr (out1, p1) \<and>
        get_labels_in_rectangle post xLeft yTop xRight yBottom minPct False = Inr (out2, p2) \<longrightarrow>
          get_labels_in_rectangle (pre @ l # post) xLeft yTop xRight yBottom minPct False =
            Inr (out1 @ \<lparr>lbl_class = lbl_class l,
                         lbl_xLeft = max 0 (lbl_xLeft l - xLeft),
                         lbl_yTop = max 0 (lbl_yTop l - yTop),
                         lbl_xRight = min (xRight - xLeft) (lbl_xRight l - xLeft),
                         lbl_yBottom = min (yBottom - yTop) (lbl_yBottom l - yTop),
                         lbl_area = 0\<rparr> # out2, p2)))"
proof (intro conjI impI)
  assume "\<not> label_inside l xLeft yTop xRight yBottom"
  then show "get_labels_in_rectangle (pre @ l # post) xLeft yTop xRight yBottom minPct rejectPartial =
      get_labels_in_rectangle (pre @ post) xLeft yTop xRight yBottom minPct rejectPartial"
    unfolding get_labels_in_rectangle_def by (rule loop_skip)
next
  assume a: "zero_overlap l xLeft yTop xRight yBottom \<and>
       lbl_xLeft l \<le> lbl_xRight l \<and> lbl_yTop l \<le> lbl_yBottom l \<and> lbl_area l \<noteq> 0 \<and>
       xLeft \<le> xRight \<and> yTop \<le> yBottom" and m: "0 < minPct"
  then have step: "get_labels_loop (l # post) xLeft yTop xRight yBottom minPct False out =
         get_labels_loop post xLeft yTop xRight yBottom minPct False out" for out
    by (intro abutting_step_keep_going) simp_all
  show "get_labels_in_rectangle (pre @ l # post) xLeft yTop xRight yBottom minPct False =
          get_labels_in_rectangle (pre @ post) xLeft yTop xRight yBottom minPct False"
    unfolding get_labels_in_rectangle_def loop_append step by (rule refl)
next
  assume a: "zero_overlap l xLeft yTop xRight yBottom \<and>
       lbl_xLeft l \<le> lbl_xRight l \<and> lbl_yTop l \<le> lbl_yBottom l \<and> lbl_area l \<noteq> 0 \<and>
       xLeft \<le> xRight \<and> yTop \<le> yBottom" and i: "label_inside l xLeft yTop xRight yBottom"
  then have stop: "get_labels_loop (l # post) xLeft yTop xRight yBottom minPct True out = Inr (out, True)" for out
    by (intro abutting_step_stop) simp_all
  show "get_labels_in_rectangle (pre @ l # post) xLeft yTop xRight yBottom minPct True =
          (case get_labels_in_rectangle pre xLeft yTop xRight yBottom minPct True of
             Inl e \<Rightarrow> Inl e | Inr (out, isPartial) \<Rightarrow> Inr (out, True))"
    unfolding get_labels_in_rectangle_def loop_append stop by (simp split: sum.splits)
next
  assume a: "zero_overlap l xLeft yTop xRight yBottom \<and>
       lbl_xLeft l \<le> lbl_xRight l \<and> lbl_yTop l \<le> lbl_yBottom l \<and> lbl_area l \<noteq> 0 \<and>
       xLeft \<le> xRight \<and> yTop \<le> yBottom"
    and b: "label_inside l xLeft yTop xRight yBottom \<and> minPct \<le> 0 \<and>
        get_labels_in_rectangle pre xLeft yTop xRight yBottom minPct False = Inr (out1, p1) \<and>
        get_labels_in_rectangle post xLeft yTop xRight yBottom minPct False = Inr (out2, p2)"
  let ?c = "clipped_label l xLeft yTop xRight yBottom"
  let ?s = "\<lparr>lbl_class = lbl_class l,
                         lbl_xLeft = max 0 (lbl_xLeft l - xLeft),
                         lbl_yTop = max 0 (lbl_yTop l - yTop),
                         lbl_xRight = min (xRight - xLeft) (lbl_xRight l - xLeft),
                         lbl_yBottom = min (yBottom - yTop) (lbl_yBottom l - yTop),
                         lbl_area = 0\<rparr>"
  from a b have ar: "lbl_area ?c = 0" by (intro abutting_area) simp_all
  have "?c = ?c\<lparr>lbl_area := lbl_area ?c\<rparr>" by simp
  also have "\<dots> = ?s" unfolding ar by (simp add: clipped_label_def Let_def)
  finally have cs: "?c = ?s" .
  from a b have step: "get_labels_loop (l # post) xLeft yTop xRight yBottom minPct False out =
         get_labels_loop post xLeft yTop xRight yBottom minPct False (out @ [?c])" for out
    by (intro abutting_step_append) simp_all
  have np: "\<not> p1"
  proof
    assume p1
    with b have "get_labels_loop pre xLeft yTop xRight yBottom minPct False [] = Inr (out1, True)"
      by (simp add: get_labels_in_rectangle_def)
    then show False
      by (induction pre arbitrary: out1 rule: rev_induct)
         (auto simp: loop_append Let_def split: sum.splits if_splits)
  qed
  have "get_labels_loop (pre @ l # post) xLeft yTop xRight yBottom minPct False [] =
       get_labels_loop post xLeft yTop xRight yBottom minPct False (out1 @ [?c])"
    using b np unfolding loop_append get_labels_in_rectangle_def step by simp
  also have "\<dots> = prepend_out (out1 @ [?c])
                     (get_labels_loop post xLeft yTop xRight yBottom minPct False [])"
    by (rule loop_acc)
  also have "\<dots> = Inr (out1 @ ?c # out2, p2)"
    using b by (simp add: get_labels_in_rectangle_def)
  finally show "get_labels_in_rectangle (pre @ l # post) xLeft yTop xRight yBottom minPct False =
            Inr (out1 @ ?s # out2, p2)"
    unfolding cs by (simp add: get_labels_in_rectangle_def)
qed

theorem clip_excludes_zero_overlap_witness:
  "\<not> label_inside \<lparr>lbl_class = 0, lbl_xLeft = 0, lbl_yTop = 0, lbl_xRight = 9,
        lbl_yBottom = 10, lbl_area = 90\<rparr> 10 0 20 10 \<and>
   get_labels_in_rectangle [\<lparr>lbl_class = 0, lbl_xLeft = 0, lbl_yTop = 0, lbl_xRight = 9,
        lbl_yBottom = 10, lbl_area = 90\<rparr>] 10 0 20 10 0 False = Inr ([], False) \<and>
   zero_overlap \<lparr>lbl_class = 0, lbl_xLeft = 0, lbl_yTop = 0, lbl_xRight = 10,
        lbl_yBottom = 10, lbl_area = 100\<rparr> 10 0 20 10 \<and>
   label_inside \<lparr>lbl_class = 0, lbl_xLeft = 0, lbl_yTop = 0, lbl_xRight = 10,
        lbl_yBottom = 10, lbl_area = 100\<rparr> 10 0 20 10 \<and>
   get_labels_in_rectangle [\<lparr>lbl_class = 0, lbl_xLeft = 0, lbl_yTop = 0, lbl_xRight = 10,
        lbl_yBottom = 10, lbl_area = 100\<rparr>] 10 0 20 10 (1 / 2) False = Inr ([], False) \<and>
   get_labels_in_rectangle [\<lparr>lbl_class = 0, lbl_xLeft = 0, lbl_yTop = 0, lbl_xRight = 10,
        lbl_yBottom = 10, lbl_area = 100\<rparr>] 10 0 20 10 (1 / 2) True = Inr ([], True) \<and>
   get_labels_in_rectangle [\<lparr>lbl_class = 0, lbl_xLeft = 0, lbl_yTop = 0, lbl_xRight = 10,
        lbl_yBottom = 10, lbl_area = 100\<rparr>] 10 0 20 10 0 False =
     Inr ([\<lparr>lbl_class = 0, lbl_xLeft = 0, lbl_yTop = 0, lbl_xRight = 0,
            lbl_yBottom = 10, lbl_area = 0\<rparr>], False)"
proof -
  let ?l = "\<lparr>lbl_class = 0, lbl_xLeft = 0, lbl_yTop = 0, lbl_xRight = 9,
        lbl_yBottom = 10, lbl_area = 90\<rparr>"
  let ?a = "\<lparr>lbl_class = 0, lbl_xLeft = 0, lbl_yTop = 0, lbl_xRight = 10,
        lbl_yBottom = 10, lbl_area = 100\<rparr>"
  have n: "\<not> label_inside ?l 10 0 20 10"
    by (simp add: label_inside_def)
  have z: "zero_overlap ?a 10 0 20 10" and i: "label_inside ?a 10 0 20 10"
    by (simp_all add: zero_overlap_def label_inside_def)
  have e: "get_labels_in_rectangle [] 10 0 20 10 minPct rp = Inr ([], False)" for minPct rp
    by (simp add: get_labels_in_rectangle_def)
  from clip_excludes_zero_overlap [where l = ?l and xLeft = 10 and yTop = 0 and xRight = 20
      and yBottom = 10 and pre = "[]" and post = "[]" and minPct = 0 and rejectPartial = False] n
  have a: "get_labels_in_rectangle [?l] 10 0 20 10 0 False = Inr ([], False)"
    by (simp add: e)
  from clip_excludes_zero_overlap [where l = ?a and xLeft = 10 and yTop = 0 and xRight = 20
      and yBottom = 10 and pre = "[]" and post = "[]" and minPct = "1 / 2"] z i
  have b: "get_labels_in_rectangle [?a] 10 0 20 10 (1 / 2) False = Inr ([], False)"
    and c: "get_labels_in_rectangle [?a] 10 0 20 10 (1 / 2) True = Inr ([], True)"
    by (simp_all add: e)
  from clip_excludes_zero_overlap [where l = ?a and xLeft = 10 and yTop = 0 and xRight = 20
      and yBottom = 10 and pre = "[]" and post = "[]" and minPct = 0 and ?out1.0 = "[]"
      and ?out2.0 = "[]" and ?p1.0 = False and ?p2.0 = False] z i
  have d: "get_labels_in_rectangle [?a] 10 0 20 10 0 False =
     Inr ([\<lparr>lbl_class = 0, lbl_xLeft = 0, lbl_yTop = 0, lbl_xRight = 0,
            lbl_yBottom = 10, lbl_area = 0\<rparr>], False)"
    by (simp add: e)
  from n z i a b c d show ?thesis by simp
qed

text \<open>
  C6 as stated fails: the label \<open>(0,0,0,10,10,100)\<close> covers the columns 0 to 9 and the
  rectangle \<open>(10,0,20,10)\<close> the columns 10 to 19, so that they share no pixel; the label
  passes the candidate test all the same (\<open>xRight \<ge> 10\<close>), its clipped area is 0, and
  with \<open>minPct = 0\<close> it is in the output. The same happens with the rectangle
  \<open>(10,0,10,10)\<close>, which has no pixel at all, and the label \<open>(0,0,0,20,10,200)\<close>.
\<close>

theorem clip_keeps_abutting_label:
  "zero_overlap \<lparr>lbl_class = 0, lbl_xLeft = 0, lbl_yTop = 0, lbl_xRight = 10,
        lbl_yBottom = 10, lbl_area = 100\<rparr> 10 0 20 10 \<and>
   get_labels_in_rectangle [\<lparr>lbl_class = 0, lbl_xLeft = 0, lbl_yTop = 0, lbl_xRight = 10,
        lbl_yBottom = 10, lbl_area = 100\<rparr>] 10 0 20 10 0 False =
     Inr ([\<lparr>lbl_class = 0, lbl_xLeft = 0, lbl_yTop = 0, lbl_xRight = 0,
            lbl_yBottom = 10, lbl_area = 0\<rparr>], False) \<and>
   get_labels_in_rectangle [] 10 0 20 10 0 False = Inr ([], False) \<and>
   zero_overlap \<lparr>lbl_class = 0, lbl_xLeft = 0, lbl_yTop = 0, lbl_xRight = 20,
        lbl_yBottom = 10, lbl_area = 200\<rparr> 10 0 10 10 \<and>
   get_labels_in_rectangle [\<lparr>lbl_class = 0, lbl_xLeft = 0, lbl_yTop = 0, lbl_xRight = 20,
        lbl_yBottom = 10, lbl_area = 200\<rparr>] 10 0 10 10 0 False =
     Inr ([\<lparr>lbl_class = 0, lbl_xLeft = 0, lbl_yTop = 0, lbl_xRight = 0,
            lbl_yBottom = 10, lbl_area = 0\<rparr>], False)"
  by (simp add: zero_overlap_def get_labels_in_rectangle_def label_inside_def clipped_label_def)

text \<open>
  C10 (amended). For a rectangle with \<open>xLeft \<le> xRight\<close> and \<open>yTop \<le> yBottom\<close> and input labels with
  \<open>xLeft \<le> xRight\<close> and \<open>yTop \<le> yBottom\<close>, every label \<open>c\<close> of the returned list lies in the
  rectangle's own frame, \<open>0 \<le> xLeft \<le> xRight \<le> rect.xRight - rect.xLeft\<close> and the same for
  the rows, and its area is that of its box; this holds whether \<open>isPartial\<close> is returned
  true or false.
\<close>

theorem clip_output_bounds:
  assumes "xLeft \<le> xRight" "yTop \<le> yBottom"
    and "\<forall>l\<in>set theLabels. lbl_xLeft l \<le> lbl_xRight l \<and> lbl_yTop l \<le> lbl_yBottom l"
    and "get_labels_in_rectangle theLabels xLeft yTop xRight yBottom minPct rejectPartial
           = Inr (outLabels, isPartial)"
    and "c \<in> set outLabels"
  shows "0 \<le> lbl_xLeft c \<and> lbl_xLeft c \<le> lbl_xRight c \<and> lbl_xRight c \<le> xRight - xLeft \<and>
         0 \<le> lbl_yTop c \<and> lbl_yTop c \<le> lbl_yBottom c \<and> lbl_yBottom c \<le> yBottom - yTop \<and>
         lbl_area c = (lbl_xRight c - lbl_xLeft c) * (lbl_yBottom c - lbl_yTop c)"
proof -
  from assms(4)
  have "get_labels_loop theLabels xLeft yTop xRight yBottom minPct rejectPartial []
          = Inr (outLabels, isPartial)"
    by (simp add: get_labels_in_rectangle_def)
  from loop_origin [OF this assms(5)] obtain l where
    l: "l \<in> set theLabels" "label_inside l xLeft yTop xRight yBottom"
       "c = clipped_label l xLeft yTop xRight yBottom"
    by auto
  from l(1) assms(3) have wf: "lbl_xLeft l \<le> lbl_xRight l" "lbl_yTop l \<le> lbl_yBottom l" by auto
  from clipped_bounds [OF l(2) wf assms(1,2)] show ?thesis
    unfolding l(3) by blast
qed

theorem clip_output_bounds_witness:
  "(150::int) \<le> 350 \<and>
   get_labels_in_rectangle
     [\<lparr>lbl_class = 0, lbl_xLeft = 100, lbl_yTop = 100, lbl_xRight = 200, lbl_yBottom = 200,
        lbl_area = 10000\<rparr>] 150 150 350 350 (1 / 5) False =
     Inr ([\<lparr>lbl_class = 0, lbl_xLeft = 0, lbl_yTop = 0, lbl_xRight = 50, lbl_yBottom = 50,
             lbl_area = 2500\<rparr>], False) \<and>
   lbl_area \<lparr>lbl_class = 0, lbl_xLeft = 0, lbl_yTop = 0, lbl_xRight = 50, lbl_yBottom = 50,
             lbl_area = 2500\<rparr> = (50 - 0) * (50 - 0) \<and> (50::int) \<le> 350 - 150"
proof -
  let ?l = "\<lparr>lbl_class = 0, lbl_xLeft = 100, lbl_yTop = 100, lbl_xRight = 200, lbl_yBottom = 200,
        lbl_area = 10000\<rparr>"
  let ?c = "\<lparr>lbl_class = 0, lbl_xLeft = 0, lbl_yTop = 0, lbl_xRight = 50, lbl_yBottom = 50,
             lbl_area = 2500\<rparr>"
  have r: "get_labels_in_rectangle [?l] 150 150 350 350 (1 / 5) False = Inr ([?c], False)"
    by (simp add: get_labels_in_rectangle_def label_inside_def clipped_label_def)
  have "0 \<le> lbl_xLeft ?c \<and> lbl_xLeft ?c \<le> lbl_xRight ?c \<and> lbl_xRight ?c \<le> 350 - 150 \<and>
         0 \<le> lbl_yTop ?c \<and> lbl_yTop ?c \<le> lbl_yBottom ?c \<and> lbl_yBottom ?c \<le> 350 - 150 \<and>
         lbl_area ?c = (lbl_xRight ?c - lbl_xLeft ?c) * (lbl_yBottom ?c - lbl_yTop ?c)"
    by (rule clip_output_bounds [of 150 350 150 350 "[?l]" "1 / 5" False "[?c]" False ?c, OF _ _ _ r])
       simp_all
  with r show ?thesis by simp
qed

text \<open>
  C10 as stated fails: it asks nothing of the rectangle. For the rectangle \<open>(5,5,2,2)\<close>,
  whose right and bottom bounds lie before its left and top ones, the label
  \<open>(0,0,0,12,12,144)\<close> (with \<open>xLeft \<le> xRight\<close> and \<open>yTop \<le> yBottom\<close>) passes the candidate
  test and is returned with \<open>lxRight = -3 < 0 = lxLeft\<close> and \<open>lyBottom = -3 < 0 = lyTop\<close>.
\<close>

theorem clip_inverted_rectangle:
  "lbl_xLeft \<lparr>lbl_class = 0, lbl_xLeft = 0, lbl_yTop = 0, lbl_xRight = 12,
        lbl_yBottom = 12, lbl_area = 144\<rparr> \<le> 12 \<and>
   get_labels_in_rectangle [\<lparr>lbl_class = 0, lbl_xLeft = 0, lbl_yTop = 0, lbl_xRight = 12,
        lbl_yBottom = 12, lbl_area = 144\<rparr>] 5 5 2 2 (1 / 16) False =
     Inr ([\<lparr>lbl_class = 0, lbl_xLeft = 0, lbl_yTop = 0, lbl_xRight = - 3,
            lbl_yBottom = - 3, lbl_area = 9\<rparr>], False)"
  by (simp add: get_labels_in_rectangle_def label_inside_def clipped_label_def)

section \<open>Properties of convert\_objdetect\_labels\<close>








section \<open>Properties of transform\_image\<close>

lemma flips_commute:
  "vertical_flip (horizontal_flip p) = horizontal_flip (vertical_flip p)"
  by (cases p)
     (simp add: vertical_flip_def horizontal_flip_def fliplr_def flipud_def
        flip_labels_lr_def flip_labels_ud_def rev_map)

lemma apply_flips_3: "apply_flips 3 p = vertical_flip (horizontal_flip p)"
  by (simp add: apply_flips_def)

lemma apply_flips_0: "apply_flips 0 p = p"
  by (simp add: apply_flips_def)

lemma apply_flips_shape:
  "img_shape0 (fst (apply_flips f p)) = img_shape0 (fst p)"
  "img_shape1 (fst (apply_flips f p)) = img_shape1 (fst p)"
  by (cases p; simp add: apply_flips_def vertical_flip_def horizontal_flip_def fliplr_def flipud_def Let_def)+

lemma vignet_error:
  "add_vigneting img sm xr yr = Inl e \<longleftrightarrow> e = ValueError \<and> (img_shape0 img = 0 \<or> img_shape1 img = 0)"
  by (auto simp: add_vigneting_def Let_def)

lemma transform_labels:
  "map_sum id snd (transform_image theImage theLabels f bv bs sm xr yr) =
     (if img_shape0 theImage = 0 \<or> img_shape1 theImage = 0 then Inl ValueError
      else Inr (snd (apply_flips f (theImage, theLabels))))"
proof -
  obtain fl ls where p: "apply_flips f (theImage, theLabels) = (fl, ls)"
    by (cases "apply_flips f (theImage, theLabels)")
  from apply_flips_shape [of f "(theImage, theLabels)"] p
  have sh: "img_shape0 fl = img_shape0 theImage" "img_shape1 fl = img_shape1 theImage"
    by simp_all
  have sh': "img_shape0 (change_brightness fl bv bs) = img_shape0 theImage"
     "img_shape1 (change_brightness fl bv bs) = img_shape1 theImage"
    using sh by (simp_all add: change_brightness_def)
  show ?thesis
  proof (cases "add_vigneting (change_brightness fl bv bs) sm xr yr")
    case (Inl e)
    with vignet_error [of "change_brightness fl bv bs" sm xr yr e] sh' p show ?thesis
      by (simp add: transform_image_def)
  next
    case (Inr v)
    have "\<not> (img_shape0 theImage = 0 \<or> img_shape1 theImage = 0)"
    proof
      assume "img_shape0 theImage = 0 \<or> img_shape1 theImage = 0"
      with sh' have "add_vigneting (change_brightness fl bv bs) sm xr yr = Inl ValueError"
        by (simp add: add_vigneting_def Let_def)
      with Inr show False by simp
    qed
    with Inr p show ?thesis by (simp add: transform_image_def)
  qed
qed

text \<open>
  C7. The horizontal flip mirrors each row of pixels left to right and maps the columns
  of a label to \<open>width - 1 - xRight\<close> and \<open>width - 1 - xLeft\<close>; the vertical flip reverses
  the order of the rows and maps the rows of a label to \<open>height - 1 - yBottom\<close> and
  \<open>height - 1 - yTop\<close>. With \<open>flipValue = 3\<close>, \<open>transform_image\<close> returns what it returns
  without flip (\<open>flipValue = 0\<close>: brightness and vignetting only, labels as given) for
  the tile with both mirrorings applied to its pixels and both mappings to its labels;
  this is also what it returns with \<open>flipValue = 2\<close> for the horizontally flipped tile and
  with \<open>flipValue = 1\<close> for the vertically flipped one. The two flips give the same
  pixels and labels in either order.
\<close>

theorem transform_both_flips:
  "transform_image theImage theLabels 3 bv bs sm xr yr =
     transform_image
       (theImage\<lparr>img_rows := rev (map rev (img_rows theImage))\<rparr>)
       (map (\<lambda>c. \<lparr>lbl_class = lbl_class c,
                   lbl_xLeft = int (img_shape1 theImage) - 1 - lbl_xRight c,
                   lbl_yTop = int (img_shape0 theImage) - 1 - lbl_yBottom c,
                   lbl_xRight = int (img_shape1 theImage) - 1 - lbl_xLeft c,
                   lbl_yBottom = int (img_shape0 theImage) - 1 - lbl_yTop c,
                   lbl_area = lbl_area c\<rparr>) theLabels) 0 bv bs sm xr yr
   \<and> transform_image theImage theLabels 3 bv bs sm xr yr =
     transform_image
       (theImage\<lparr>img_rows := map rev (img_rows theImage)\<rparr>)
       (map (\<lambda>c. \<lparr>lbl_class = lbl_class c,
                   lbl_xLeft = int (img_shape1 theImage) - 1 - lbl_xRight c,
                   lbl_yTop = lbl_yTop c,
                   lbl_xRight = int (img_shape1 theImage) - 1 - lbl_xLeft c,
                   lbl_yBottom = lbl_yBottom c,
                   lbl_area = lbl_area c\<rparr>) theLabels) 2 bv bs sm xr yr
   \<and> transform_image theImage theLabels 3 bv bs sm xr yr =
     transform_image
       (theImage\<lparr>img_rows := rev (img_rows theImage)\<rparr>)
       (map (\<lambda>c. \<lparr>lbl_class = lbl_class c,
                   lbl_xLeft = lbl_xLeft c,
                   lbl_yTop = int (img_shape0 theImage) - 1 - lbl_yBottom c,
                   lbl_xRight = lbl_xRight c,
                   lbl_yBottom = int (img_shape0 theImage) - 1 - lbl_yTop c,
                   lbl_area = lbl_area c\<rparr>) theLabels) 1 bv bs sm xr yr
   \<and> transform_image theImage theLabels 0 bv bs sm xr yr =
       (case add_vigneting (change_brightness theImage bv bs) sm xr yr of
          Inl e \<Rightarrow> Inl e
        | Inr vignetted \<Rightarrow> Inr (vignetted, theLabels))
   \<and> horizontal_flip (theImage, theLabels) =
       (theImage\<lparr>img_rows := map rev (img_rows theImage)\<rparr>,
        map (\<lambda>c. \<lparr>lbl_class = lbl_class c,
                   lbl_xLeft = int (img_shape1 theImage) - 1 - lbl_xRight c,
                   lbl_yTop = lbl_yTop c,
                   lbl_xRight = int (img_shape1 theImage) - 1 - lbl_xLeft c,
                   lbl_yBottom = lbl_yBottom c,
                   lbl_area = lbl_area c\<rparr>) theLabels)
   \<and> vertical_flip (theImage, theLabels) =
       (theImage\<lparr>img_rows := rev (img_rows theImage)\<rparr>,
        map (\<lambda>c. \<lparr>lbl_class = lbl_class c,
                   lbl_xLeft = lbl_xLeft c,
                   lbl_yTop = int (img_shape0 theImage) - 1 - lbl_yBottom c,
                   lbl_xRight = lbl_xRight c,
                   lbl_yBottom = int (img_shape0 theImage) - 1 - lbl_yTop c,
                   lbl_area = lbl_area c\<rparr>) theLabels)
   \<and> vertical_flip (horizontal_flip (theImage, theLabels)) =
       (theImage\<lparr>img_rows := rev (map rev (img_rows theImage))\<rparr>,
        map (\<lambda>c. \<lparr>lbl_class = lbl_class c,
                   lbl_xLeft = int (img_shape1 theImage) - 1 - lbl_xRight c,
                   lbl_yTop = int (img_shape0 theImage) - 1 - lbl_yBottom c,
                   lbl_xRight = int (img_shape1 theImage) - 1 - lbl_xLeft c,
                   lbl_yBottom = int (img_shape0 theImage) - 1 - lbl_yTop c,
                   lbl_area = lbl_area c\<rparr>) theLabels)
   \<and> horizontal_flip (vertical_flip (theImage, theLabels)) =
       (theImage\<lparr>img_rows := rev (map rev (img_rows theImage))\<rparr>,
        map (\<lambda>c. \<lparr>lbl_class = lbl_class c,
                   lbl_xLeft = int (img_shape1 theImage) - 1 - lbl_xRight c,
                   lbl_yTop = int (img_shape0 theImage) - 1 - lbl_yBottom c,
                   lbl_xRight = int (img_shape1 theImage) - 1 - lbl_xLeft c,
                   lbl_yBottom = int (img_shape0 theImage) - 1 - lbl_yTop c,
                   lbl_area = lbl_area c\<rparr>) theLabels)"
  by (simp add: transform_image_def apply_flips_def horizontal_flip_def vertical_flip_def
        fliplr_def flipud_def flip_labels_lr_def flip_labels_ud_def rev_map o_def)


text \<open>
  On a tile of 2 rows and 3 columns with one label, both orders of the two flips give the
  pixels in reverse order and the label \<open>(7,0,0,1,1,1)\<close> at \<open>(7,1,0,2,1,1)\<close>.
\<close>

theorem transform_both_flips_witness:
  "vertical_flip (horizontal_flip
     (\<lparr>img_shape0 = 2, img_shape1 = 3,
        img_rows = [[[1], [2], [3]], [[4], [5], [6]]]\<rparr>,
      [\<lparr>lbl_class = 7, lbl_xLeft = 0, lbl_yTop = 0, lbl_xRight = 1, lbl_yBottom = 1,
         lbl_area = 1\<rparr>])) =
     (\<lparr>img_shape0 = 2, img_shape1 = 3,
        img_rows = [[[6], [5], [4]], [[3], [2], [1]]]\<rparr>,
      [\<lparr>lbl_class = 7, lbl_xLeft = 1, lbl_yTop = 0, lbl_xRight = 2, lbl_yBottom = 1,
         lbl_area = 1\<rparr>])
   \<and> horizontal_flip (vertical_flip
     (\<lparr>img_shape0 = 2, img_shape1 = 3,
        img_rows = [[[1], [2], [3]], [[4], [5], [6]]]\<rparr>,
      [\<lparr>lbl_class = 7, lbl_xLeft = 0, lbl_yTop = 0, lbl_xRight = 1, lbl_yBottom = 1,
         lbl_area = 1\<rparr>])) =
     (\<lparr>img_shape0 = 2, img_shape1 = 3,
        img_rows = [[[6], [5], [4]], [[3], [2], [1]]]\<rparr>,
      [\<lparr>lbl_class = 7, lbl_xLeft = 1, lbl_yTop = 0, lbl_xRight = 2, lbl_yBottom = 1,
         lbl_area = 1\<rparr>])"
  using transform_both_flips [of "\<lparr>img_shape0 = 2, img_shape1 = 3,
        img_rows = [[[1], [2], [3]], [[4], [5], [6]]]\<rparr>"
      "[\<lparr>lbl_class = 7, lbl_xLeft = 0, lbl_yTop = 0, lbl_xRight = 1, lbl_yBottom = 1,
         lbl_area = 1\<rparr>]" 0 0 1 0 0,
      THEN conjunct2, THEN conjunct2, THEN conjunct2, THEN conjunct2, THEN conjunct2,
      THEN conjunct2]
  by simp


text \<open>
  C8. The labels that \<open>transform_image\<close> returns are those left by the flips that
  \<open>flipValue\<close> asks for: they are the same for any two choices of the brightness and
  vignetting parameters (and the call fails for one choice exactly when it fails for the
  other, on an image without pixels), and with \<open>flipValue = 0\<close> they are the input
  labels.
\<close>

theorem transform_labels_only_flips:
  "map_sum id snd (transform_image theImage theLabels flipValue bv bs sm xr yr) =
     map_sum id snd (transform_image theImage theLabels flipValue bv' bs' sm' xr' yr')
   \<and> map_sum id snd (transform_image theImage theLabels flipValue bv bs sm xr yr) =
     (if img_shape0 theImage = 0 \<or> img_shape1 theImage = 0 then Inl ValueError
      else Inr (snd (apply_flips flipValue (theImage, theLabels))))
   \<and> snd (apply_flips 0 (theImage, theLabels)) = theLabels"
  by (simp add: transform_labels apply_flips_0)

section \<open>Properties of get\_image\<close>

lemma loop_error_kind:
  "get_labels_loop ls xLeft yTop xRight yBottom minPct rp out = Inl e \<Longrightarrow> e = ZeroDivisionError"
  by (induction ls arbitrary: out) (auto simp: Let_def split: if_splits)

lemma randint_error_kind: "randint lo hi g = Inl e \<Longrightarrow> e = ValueError \<or> e = OutOfDraws"
  by (auto simp: randint_def split: if_splits list.splits)

lemma search_no_unbound: "search_rectangle self g \<noteq> Inl UnboundLocalError"
proof (induction self g rule: search_rectangle.induct)
  case (1 self g)
  show ?case
  proof
    assume a: "search_rectangle self g = Inl UnboundLocalError"
    show False
    proof (cases "randint (mds_mosaicXMin self) (mds_mosaicXMax self - mds_imgWidth self) g")
      case (Inl e)
      with a randint_error_kind [OF Inl] show False
        by (auto simp: search_rectangle.simps [of self g])
    next
      case (Inr p1)
      obtain xLeft g1 where p1: "p1 = (xLeft, g1)" by (cases p1)
      show False
      proof (cases "randint (mds_mosaicYMin self) (mds_mosaicYMax self - mds_imgHeight self) g1")
        case (Inl e)
        with a Inr p1 randint_error_kind [OF Inl] show False
          by (auto simp: search_rectangle.simps [of self g])
      next
        case r2: (Inr p2)
        obtain yTop g2 where p2: "p2 = (yTop, g2)" by (cases p2)
        show False
        proof (cases "get_labels_in_rectangle (mds_theLabels self) xLeft yTop
                 (xLeft + mds_imgWidth self) (yTop + mds_imgHeight self)
                 (mds_minArea self) (mds_rejectPartial self)")
          case (Inl e)
          then have "e = ZeroDivisionError"
            unfolding get_labels_in_rectangle_def by (rule loop_error_kind)
          with a Inr p1 r2 p2 Inl show False
            by (simp add: search_rectangle.simps [of self g] Let_def)
        next
          case r3: (Inr p3)
          obtain curLabels isPartial where p3: "p3 = (curLabels, isPartial)" by (cases p3)
          show False
          proof (cases "mds_rejectPartial self \<and> isPartial")
            case True
            with a Inr p1 r2 p2 r3 p3 have "search_rectangle self g2 = Inl UnboundLocalError"
              by (simp add: search_rectangle.simps [of self g] Let_def)
            moreover have "search_rectangle self g2 \<noteq> Inl UnboundLocalError"
              using "1.IH" [of "(xLeft, g1)" xLeft g1 "(yTop, g2)" yTop g2
                  "xLeft + mds_imgWidth self" "yTop + mds_imgHeight self"
                  "(curLabels, isPartial)" curLabels isPartial]
                Inr p1 r2 p2 r3 p3 True by simp
            ultimately show False by simp
          next
            case False
            with a Inr p1 r2 p2 r3 p3 show False
              by (auto simp: search_rectangle.simps [of self g] Let_def)
          qed
        qed
      qed
    qed
  qed
qed


lemma store_best_cases:
  assumes "maxLabels = best_count best"
  shows "store_best maxLabels best cur =
     (if best_count best < length (snd cur) \<or> best_count best = 0
      then (length (snd cur), Some cur) else (best_count best, best))"
  using assms by (simp add: store_best_def Let_def)


lemma store_best_some: "snd (store_best maxLabels (Some b) cur) \<noteq> None"
  by (simp add: store_best_def Let_def del: not_None_eq)

lemma store_best_first: "store_best 0 None cur = (length (snd cur), Some cur)"
  by (simp add: store_best_def Let_def)

lemma loop_step:
  assumes "search_rectangle self g = Inr (cur, g')"
  shows "get_image_loop self (Suc n) maxLabels best g =
     (if mds_minLabels self \<le> int (length (snd cur))
      then Inr (snd (store_best maxLabels best cur), g')
      else get_image_loop self n (fst (store_best maxLabels best cur))
             (snd (store_best maxLabels best cur)) g')"
  using assms by (simp add: get_image_loop.simps(2) split: prod.splits)

lemma loop_keeps_some:
  "get_image_loop self n maxLabels (Some b) g = Inr (best, g') \<Longrightarrow> best \<noteq> None"
proof (induction n arbitrary: maxLabels b g)
  case 0
  then show ?case by (auto simp del: not_None_eq)
next
  case (Suc n)
  from Suc.prems obtain cur g1 where s: "search_rectangle self g = Inr (cur, g1)"
    by (cases "search_rectangle self g") (auto simp: get_image_loop.simps(2))
  obtain b' where b': "snd (store_best maxLabels (Some b) cur) = Some b'"
    using store_best_some [of maxLabels b cur] by auto
  show ?case
  proof (cases "mds_minLabels self \<le> int (length (snd cur))")
    case True
    with Suc.prems s b' have "best = Some b'"
      by (simp add: loop_step [OF s])
    then show ?thesis by (metis option.distinct(1))
  next
    case False
    with Suc.prems s b' have
      "get_image_loop self n (fst (store_best maxLabels (Some b) cur)) (Some b') g1 = Inr (best, g')"
      by (simp add: loop_step [OF s])
    then show ?thesis by (rule Suc.IH)
  qed
qed

lemma loop_no_unbound: "get_image_loop self n maxLabels best g \<noteq> Inl UnboundLocalError"
proof (induction n arbitrary: maxLabels best g)
  case 0
  show ?case by simp
next
  case (Suc n)
  show ?case
  proof (cases "search_rectangle self g")
    case (Inl e)
    with search_no_unbound [of self g] show ?thesis by (auto simp: get_image_loop.simps(2))
  next
    case (Inr p)
    obtain cur g1 where p: "p = (cur, g1)" by (cases p)
    from Inr p Suc.IH show ?thesis by (simp add: loop_step)
  qed
qed

lemma loop_first:
  assumes "get_image_loop self (Suc n) 0 None g = Inr (best, g')"
  shows "best \<noteq> None"
proof -
  from assms obtain cur g1 where s: "search_rectangle self g = Inr (cur, g1)"
    by (cases "search_rectangle self g") (auto simp: get_image_loop.simps(2))
  show ?thesis
  proof (cases "mds_minLabels self \<le> int (length (snd cur))")
    case True
    with assms s show ?thesis
      by (auto simp: loop_step [OF s] store_best_first simp del: not_None_eq)
  next
    case False
    with assms s have "get_image_loop self n (length (snd cur)) (Some cur) g1 = Inr (best, g')"
      by (simp add: loop_step [OF s] store_best_first)
    then show ?thesis by (rule loop_keeps_some)
  qed
qed

text \<open>Two runs of the inner loop on the demo data set.\<close>

lemma demo_search_1:
  "search_rectangle demo_dataset (0 # 0 # g) =
     Inr (((0, 0, 4, 4), [\<lparr>lbl_class = 0, lbl_xLeft = 2, lbl_yTop = 2, lbl_xRight = 4,
                            lbl_yBottom = 4, lbl_area = 4\<rparr>]), g)"
  by (simp add: search_rectangle.simps demo_dataset_def randint_def get_labels_in_rectangle_def
        label_inside_def clipped_label_def)

lemma demo_search_2: "search_rectangle demo_dataset (5 # 5 # g) = Inr (((5, 5, 9, 9), []), g)"
  by (simp add: search_rectangle.simps demo_dataset_def randint_def get_labels_in_rectangle_def
        label_inside_def clipped_label_def)

lemma demo_params:
  "nat (mds_maxIter demo_dataset) = Suc (Suc 0)" "mds_minLabels demo_dataset = 2"
  "mds_maxIter demo_dataset = 2"
  by (simp_all add: demo_dataset_def)

text \<open>
  C9. With \<open>maxIter \<ge> 1\<close> the read of the best rectangle never meets an unbound name: the
  search does not end with UnboundLocalError, a loop that ends has a best trial, and a
  first trial that completes is recorded as the best (the loop then stops with it or goes
  on with it and its label count). With \<open>maxIter = 0\<close> the read raises UnboundLocalError.
\<close>

theorem first_trial_recorded:
  assumes "1 \<le> mds_maxIter self"
  shows "get_image_search self g \<noteq> Inl UnboundLocalError
    \<and> (\<forall>best g'. get_image_loop self (nat (mds_maxIter self)) 0 None g = Inr (best, g') \<longrightarrow> best \<noteq> None)
    \<and> (\<forall>cur g1. search_rectangle self g = Inr (cur, g1) \<longrightarrow>
         get_image_loop self (nat (mds_maxIter self)) 0 None g =
           (if mds_minLabels self \<le> int (length (snd cur)) then Inr (Some cur, g1)
            else get_image_loop self (nat (mds_maxIter self) - 1) (length (snd cur)) (Some cur) g1))
    \<and> get_image_search (self\<lparr>mds_maxIter := 0\<rparr>) g = Inl UnboundLocalError"
proof -
  from assms obtain n where n: "nat (mds_maxIter self) = Suc n"
    by (cases "nat (mds_maxIter self)") auto
  have some: "best \<noteq> None" if "get_image_loop self (nat (mds_maxIter self)) 0 None g = Inr (best, g')"
    for best g'
    using that unfolding n by (rule loop_first)
  have a: "get_image_search self g \<noteq> Inl UnboundLocalError"
  proof (cases "get_image_loop self (nat (mds_maxIter self)) 0 None g")
    case (Inl e)
    with loop_no_unbound [of self "nat (mds_maxIter self)" 0 None g] show ?thesis
      by (auto simp: get_image_search_def)
  next
    case (Inr p)
    obtain best g' where p: "p = (best, g')" by (cases p)
    with Inr some [of best g'] show ?thesis
      by (auto simp: get_image_search_def)
  qed
  have c: "get_image_loop self (nat (mds_maxIter self)) 0 None g =
           (if mds_minLabels self \<le> int (length (snd cur)) then Inr (Some cur, g1)
            else get_image_loop self (nat (mds_maxIter self) - 1) (length (snd cur)) (Some cur) g1)"
    if "search_rectangle self g = Inr (cur, g1)" for cur g1
    unfolding n using that by (simp add: loop_step store_best_first)
  have d: "get_image_search (self\<lparr>mds_maxIter := 0\<rparr>) g = Inl UnboundLocalError"
    by (simp add: get_image_search_def)
  from a some c d show ?thesis by blast
qed

theorem first_trial_recorded_witness:
  "1 \<le> mds_maxIter demo_dataset \<and>
   get_image_search demo_dataset [0, 0, 5, 5] \<noteq> Inl UnboundLocalError \<and>
   get_image_loop demo_dataset (nat (mds_maxIter demo_dataset)) 0 None [0, 0, 5, 5] =
     get_image_loop demo_dataset (nat (mds_maxIter demo_dataset) - 1) 1
       (Some ((0, 0, 4, 4), [\<lparr>lbl_class = 0, lbl_xLeft = 2, lbl_yTop = 2, lbl_xRight = 4,
                              lbl_yBottom = 4, lbl_area = 4\<rparr>])) [5, 5] \<and>
   get_image_search (demo_dataset\<lparr>mds_maxIter := 0\<rparr>) [0, 0, 5, 5] = Inl UnboundLocalError"
proof -
  have m: "1 \<le> mds_maxIter demo_dataset" by (simp add: demo_dataset_def)
  from first_trial_recorded [OF m, of "[0, 0, 5, 5]"] demo_search_1 m show ?thesis
    by (simp add: demo_params)
qed

text \<open>
  C1 (amended). In an iteration of the outer loop whose trial is \<open>cur\<close>, entered with
  \<open>maxLabels\<close> equal to the label count of the recorded best (0 when nothing is recorded,
  as at the start): the trial is recorded as the new best if and only if its label count
  exceeds the best count or the best count is 0, the best is kept otherwise, and the next
  iteration is entered with the label count of the new best. In particular, once a trial
  with at least one label is recorded, a trial whose count does not exceed the best count
  leaves it unchanged.
\<close>

theorem best_recorded_rule:
  assumes "maxLabels = best_count best"
    and "search_rectangle self g = Inr (cur, g')"
  shows "get_image_loop self (Suc n) maxLabels best g =
     (let best' = (if best_count best < length (snd cur) \<or> best_count best = 0
                   then Some cur else best)
      in if mds_minLabels self \<le> int (length (snd cur)) then Inr (best', g')
         else get_image_loop self n (best_count best') best' g')
    \<and> (0 < best_count best \<and> length (snd cur) \<le> best_count best \<longrightarrow>
         store_best maxLabels best cur = (maxLabels, best))"
proof -
  have "store_best maxLabels best cur =
     (if best_count best < length (snd cur) \<or> best_count best = 0
      then (length (snd cur), Some cur) else (best_count best, best))"
    using assms(1) by (rule store_best_cases)
  then show ?thesis
    using assms(1) by (auto simp: loop_step [OF assms(2)] Let_def best_count_def)
qed

theorem best_recorded_rule_witness:
  "0 = best_count None \<and>
   get_image_loop demo_dataset (Suc 0) 0 None [0, 0, 5, 5] =
     Inr (Some ((0, 0, 4, 4), [\<lparr>lbl_class = 0, lbl_xLeft = 2, lbl_yTop = 2, lbl_xRight = 4,
                                lbl_yBottom = 4, lbl_area = 4\<rparr>]), [5, 5]) \<and>
   store_best 1 (Some ((0, 0, 4, 4), [\<lparr>lbl_class = 0, lbl_xLeft = 2, lbl_yTop = 2,
       lbl_xRight = 4, lbl_yBottom = 4, lbl_area = 4\<rparr>])) ((5, 5, 9, 9), []) =
     (1, Some ((0, 0, 4, 4), [\<lparr>lbl_class = 0, lbl_xLeft = 2, lbl_yTop = 2, lbl_xRight = 4,
                               lbl_yBottom = 4, lbl_area = 4\<rparr>]))"
proof -
  let ?t = "((0, 0, 4, 4), [\<lparr>lbl_class = 0, lbl_xLeft = 2, lbl_yTop = 2, lbl_xRight = 4,
                            lbl_yBottom = 4, lbl_area = 4\<rparr>])"
  have z: "0 = best_count None" by (simp add: best_count_def)
  have o: "1 = best_count (Some ?t)" by (simp add: best_count_def)
  from best_recorded_rule [OF z demo_search_1, of 0]
  have a: "get_image_loop demo_dataset (Suc 0) 0 None [0, 0, 5, 5] = Inr (Some ?t, [5, 5])"
    by (simp add: best_count_def demo_params)
  from best_recorded_rule [OF o demo_search_2, of 0]
  have b: "store_best 1 (Some ?t) ((5, 5, 9, 9), []) = (1, Some ?t)"
    by (simp add: best_count_def)
  from z a b show ?thesis by simp
qed

text \<open>
  C1 as stated fails: on a data set without labels, the first trial records the rectangle
  \<open>(0,0,4,4)\<close> with 0 labels; the second trial has 0 labels, which does not exceed the
  best count, and is recorded all the same (\<open>maxLabels == 0\<close>): the loop ends with the
  rectangle \<open>(3,3,7,7)\<close>.
\<close>

theorem zero_label_trial_replaces_best:
  "get_image_loop (demo_dataset\<lparr>mds_theLabels := []\<rparr>) (Suc 0) 0 None [0, 0, 3, 3] =
     Inr (Some ((0, 0, 4, 4), []), [3, 3]) \<and>
   get_image_loop (demo_dataset\<lparr>mds_theLabels := []\<rparr>) (Suc (Suc 0)) 0 None [0, 0, 3, 3] =
     Inr (Some ((3, 3, 7, 7), []), [])"
proof -
  let ?d = "demo_dataset\<lparr>mds_theLabels := []\<rparr>"
  have s1: "search_rectangle ?d [0, 0, 3, 3] = Inr (((0, 0, 4, 4), []), [3, 3])"
    by (simp add: search_rectangle.simps demo_dataset_def randint_def get_labels_in_rectangle_def)
  have s2: "search_rectangle ?d [3, 3] = Inr (((3, 3, 7, 7), []), [])"
    by (simp add: search_rectangle.simps demo_dataset_def randint_def get_labels_in_rectangle_def)
  have m: "mds_minLabels ?d = 2" by (simp add: demo_dataset_def)
  have a: "get_image_loop ?d (Suc 0) 0 None [0, 0, 3, 3] = Inr (Some ((0, 0, 4, 4), []), [3, 3])"
    by (simp add: loop_step [OF s1] m store_best_def)
  have b: "get_image_loop ?d (Suc (Suc 0)) 0 None [0, 0, 3, 3] = Inr (Some ((3, 3, 7, 7), []), [])"
    by (simp add: loop_step [OF s1] loop_step [OF s2] m store_best_def)
  from a b show ?thesis by simp
qed


































end
